theory Spec2Isabelle
  imports Main
begin

section \<open>Data model of WebRtcPeer.ts\<close>

text \<open>
  The values the class \<open>WebRtcPeer\<close> handles. Strings that the browser restricts to a
  fixed set of literals are datatypes; objects whose identity matters (media streams)
  carry an identifier.
\<close>

datatype RTCSignalingState =
  Stable | HaveLocalOffer | HaveRemoteOffer | HaveLocalPranswer | HaveRemotePranswer | Closed

datatype mode = Sendonly | Recvonly | Sendrecv

datatype mediaKind = Audio | Video

datatype RTCSdpType = Offer | Answer

record RTCRtpEncodingParameters =
  rid :: string
  maxBitrate :: nat
  scaleResolutionDownBy :: nat

record MediaStreamTrack =
  trackId :: nat
  kind :: mediaKind

record MediaStream =
  streamId :: nat
  getTracks :: "MediaStreamTrack list"

record RTCRtpTransceiverInit =
  direction :: mode
  streams :: "MediaStream list"
  sendEncodings :: "RTCRtpEncodingParameters list option"

record RTCSessionDescriptionInit =
  sdp_type :: RTCSdpType
  sdp :: string

record RTCOfferOptions =
  offerToReceiveAudio :: bool
  offerToReceiveVideo :: bool

type_synonym RTCIceCandidate = string

type_synonym engine_error = string

record mediaConstraints =
  audio :: bool
  video :: bool

text \<open>
  \<open>Required<WebRtcPeerConfiguration>\<close> as the constructor leaves it: \<open>mediaStream\<close> is a
  stream or \<open>null\<close>, \<open>mode\<close> and \<open>id\<close> are always set. The callbacks and the list of ICE
  servers play no part in the operations below.
\<close>

record WebRtcPeerConfiguration =
  mediaConstraints :: mediaConstraints
  simulcast :: bool
  mediaStream :: "MediaStream option"
  mode :: mode
  id_cfg :: string

text \<open>The table of sender video encodings (lines 51 to 75).\<close>

definition simulcastVideoEncodings :: "RTCRtpEncodingParameters list" where
  "simulcastVideoEncodings =
     [\<lparr>rid = ''r0'', maxBitrate = 700000, scaleResolutionDownBy = 16\<rparr>,
      \<lparr>rid = ''r1'', maxBitrate = 800000, scaleResolutionDownBy = 8\<rparr>,
      \<lparr>rid = ''r2'', maxBitrate = 900000, scaleResolutionDownBy = 1\<rparr>]"

section \<open>The browser's RTCPeerConnection\<close>

text \<open>
  The connection object \<open>this.pc\<close> belongs to the browser, not to this repository. It is a
  parameter of the model: a state of some type \<open>'e\<close> and the record of operations that
  the class calls on it. An asynchronous method returns the value its promise settles
  with (\<open>Inl\<close> a rejection, \<open>Inr\<close> a fulfilment) and the next state. The synchronous
  \<open>addTransceiver\<close> and \<open>addTrack\<close> and the assignment to the \<open>direction\<close> of a transceiver
  either return normally, with the next state (\<open>Inr\<close>), or throw (\<open>Inl\<close>), as a browser does
  on a closed connection; \<open>close\<close> and the readers do not throw. The two flags say
  whether the properties \<open>addTransceiver\<close> and \<open>getTransceivers\<close> exist on the object. \<open>pc_getTransceivers\<close> gives, for each
  transceiver, \<open>receiver.track.kind\<close>, the only thing the class reads of it, and
  \<open>pc_setDirection\<close> is the assignment to the \<open>direction\<close> of the transceiver at an
  index of that list.
\<close>

record 'e engine =
  has_addTransceiver :: bool
  has_getTransceivers :: bool
  pc_signalingState :: "'e \<Rightarrow> RTCSignalingState"
  pc_localDescription :: "'e \<Rightarrow> RTCSessionDescriptionInit option"
  pc_remoteDescription :: "'e \<Rightarrow> RTCSessionDescriptionInit option"
  pc_getTransceivers :: "'e \<Rightarrow> mediaKind list"
  pc_close :: "'e \<Rightarrow> 'e"
  pc_addTransceiver ::
    "'e \<Rightarrow> MediaStreamTrack + mediaKind \<Rightarrow> RTCRtpTransceiverInit \<Rightarrow> engine_error + 'e"
  pc_addTrack :: "'e \<Rightarrow> MediaStreamTrack \<Rightarrow> MediaStream \<Rightarrow> engine_error + 'e"
  pc_setDirection :: "'e \<Rightarrow> nat \<Rightarrow> mode \<Rightarrow> engine_error + 'e"
  pc_createOffer :: "'e \<Rightarrow> RTCOfferOptions option \<Rightarrow> (engine_error + RTCSessionDescriptionInit) \<times> 'e"
  pc_createAnswer :: "'e \<Rightarrow> (engine_error + RTCSessionDescriptionInit) \<times> 'e"
  pc_setLocalDescription :: "'e \<Rightarrow> RTCSessionDescriptionInit \<Rightarrow> (engine_error + unit) \<times> 'e"
  pc_setRemoteDescription :: "'e \<Rightarrow> RTCSessionDescriptionInit \<Rightarrow> (engine_error + unit) \<times> 'e"
  pc_addIceCandidate :: "'e \<Rightarrow> RTCIceCandidate \<Rightarrow> (engine_error + unit) \<times> 'e"

text \<open>
  The calls made on the connection, in the order in which they are made. A call that
  throws is a call made.
\<close>

datatype engine_call =
  Close
| AddTransceiver "MediaStreamTrack + mediaKind" RTCRtpTransceiverInit
| AddTrack MediaStreamTrack MediaStream
| SetDirection nat mode
| CreateOffer "RTCOfferOptions option"
| CreateAnswer
| SetLocalDescription RTCSessionDescriptionInit
| SetRemoteDescription RTCSessionDescriptionInit
| AddIceCandidate RTCIceCandidate

section \<open>Promises\<close>

text \<open>
  What a promise is rejected with: \<open>new Error(msg)\<close>, a bare string, or an error of the
  connection (the rejection of one of its promises, or the exception of one of its
  synchronous methods). An operation of the class builds its promise with
  \<open>new Promise((resolve, reject) => ...)\<close>; the model returns the calls to \<open>resolve\<close> and
  \<open>reject\<close> in the order in which they happen. The promise settles with the first of
  them, the later ones have no effect, and with none it stays pending for ever.
\<close>

datatype reason = ErrorObject string | Message string | EngineFailure engine_error

datatype 'a settle = Resolve 'a | Reject reason

fun promiseState :: "'a settle list \<Rightarrow> 'a settle option" where
  "promiseState [] = None"
| "promiseState (x # _) = Some x"

text \<open>\<open>p.then(v => resolve(v)).catch(error => reject(error))\<close> for a promise of the connection.\<close>

fun forward :: "engine_error + 'a \<Rightarrow> 'a settle" where
  "forward (Inl e) = Reject (EngineFailure e)"
| "forward (Inr v) = Resolve v"

text \<open>
  An exception that leaves the executor ends it, and the constructor of the promise
  calls \<open>reject\<close> with the exception.
\<close>

definition thrown :: "engine_error \<Rightarrow> 'a settle" where
  "thrown err = Reject (EngineFailure err)"

section \<open>The class WebRtcPeer\<close>

text \<open>
  The fields of the class, with two more that the source does not have: \<open>engineCalls\<close>
  records every call made on \<open>pc\<close>, and \<open>streamsCreated\<close> counts the \<open>MediaStream\<close>
  objects built so far, so that \<open>new MediaStream()\<close> gives each stream an identifier of
  its own: a stream that exists has an identifier below the counter.
\<close>

record 'e WebRtcPeer =
  pc :: 'e
  remoteCandidatesQueue :: "RTCIceCandidate list"
  localCandidatesQueue :: "RTCIceCandidate list"
  configuration :: WebRtcPeerConfiguration
  iceCandidateList :: "RTCIceCandidate list"
  candidategatheringdone :: bool
  engineCalls :: "engine_call list"
  streamsCreated :: nat

definition invoke :: "engine_call \<Rightarrow> 'e \<Rightarrow> 'e WebRtcPeer \<Rightarrow> 'e WebRtcPeer" where
  "invoke c e s = s\<lparr>pc := e, engineCalls := engineCalls s @ [c]\<rparr>"

definition call_close :: "'e engine \<Rightarrow> 'e WebRtcPeer \<Rightarrow> 'e WebRtcPeer" where
  "call_close eng s = invoke Close (pc_close eng (pc s)) s"

text \<open>
  A synchronous call that may throw: \<open>Some\<close> the exception, with the connection as it
  was, or \<open>None\<close> and the next state of the connection.
\<close>

definition call_sync ::
  "engine_call \<Rightarrow> engine_error + 'e \<Rightarrow> 'e WebRtcPeer \<Rightarrow> engine_error option \<times> 'e WebRtcPeer" where
  "call_sync c r s =
     (case r of
        Inl err \<Rightarrow> (Some err, s\<lparr>engineCalls := engineCalls s @ [c]\<rparr>)
      | Inr e \<Rightarrow> (None, invoke c e s))"

definition call_addTransceiver ::
  "'e engine \<Rightarrow> MediaStreamTrack + mediaKind \<Rightarrow> RTCRtpTransceiverInit \<Rightarrow> 'e WebRtcPeer
     \<Rightarrow> engine_error option \<times> 'e WebRtcPeer" where
  "call_addTransceiver eng t tcInit s =
     call_sync (AddTransceiver t tcInit) (pc_addTransceiver eng (pc s) t tcInit) s"

definition call_addTrack ::
  "'e engine \<Rightarrow> MediaStreamTrack \<Rightarrow> MediaStream \<Rightarrow> 'e WebRtcPeer
     \<Rightarrow> engine_error option \<times> 'e WebRtcPeer" where
  "call_addTrack eng t ms s = call_sync (AddTrack t ms) (pc_addTrack eng (pc s) t ms) s"

definition call_setDirection ::
  "'e engine \<Rightarrow> nat \<Rightarrow> mode \<Rightarrow> 'e WebRtcPeer \<Rightarrow> engine_error option \<times> 'e WebRtcPeer" where
  "call_setDirection eng i m s =
     call_sync (SetDirection i m) (pc_setDirection eng (pc s) i m) s"

definition call_createOffer ::
  "'e engine \<Rightarrow> RTCOfferOptions option \<Rightarrow> 'e WebRtcPeer
     \<Rightarrow> (engine_error + RTCSessionDescriptionInit) \<times> 'e WebRtcPeer" where
  "call_createOffer eng opts s =
     (fst (pc_createOffer eng (pc s) opts),
      invoke (CreateOffer opts) (snd (pc_createOffer eng (pc s) opts)) s)"

definition call_createAnswer ::
  "'e engine \<Rightarrow> 'e WebRtcPeer \<Rightarrow> (engine_error + RTCSessionDescriptionInit) \<times> 'e WebRtcPeer" where
  "call_createAnswer eng s =
     (fst (pc_createAnswer eng (pc s)), invoke CreateAnswer (snd (pc_createAnswer eng (pc s))) s)"

definition call_setLocalDescription ::
  "'e engine \<Rightarrow> RTCSessionDescriptionInit \<Rightarrow> 'e WebRtcPeer \<Rightarrow> (engine_error + unit) \<times> 'e WebRtcPeer" where
  "call_setLocalDescription eng d s =
     (fst (pc_setLocalDescription eng (pc s) d),
      invoke (SetLocalDescription d) (snd (pc_setLocalDescription eng (pc s) d)) s)"

definition call_addIceCandidate ::
  "'e engine \<Rightarrow> RTCIceCandidate \<Rightarrow> 'e WebRtcPeer \<Rightarrow> (engine_error + unit) \<times> 'e WebRtcPeer" where
  "call_addIceCandidate eng c s =
     (fst (pc_addIceCandidate eng (pc s) c),
      invoke (AddIceCandidate c) (snd (pc_addIceCandidate eng (pc s) c)) s)"

text \<open>The method \<open>setRemoteDescription\<close> of the class (lines 380 to 382).\<close>

definition setRemoteDescription ::
  "'e engine \<Rightarrow> RTCSessionDescriptionInit \<Rightarrow> 'e WebRtcPeer \<Rightarrow> (engine_error + unit) \<times> 'e WebRtcPeer" where
  "setRemoteDescription eng d s =
     (fst (pc_setRemoteDescription eng (pc s) d),
      invoke (SetRemoteDescription d) (snd (pc_setRemoteDescription eng (pc s) d)) s)"

subsection \<open>The listener for signalingstatechange (lines 133 to 140)\<close>



subsection \<open>dispose (lines 150 to 160)\<close>

text \<open>
  \<open>pc\<close> is assigned in the constructor and its type has no \<open>null\<close>, so the test
  \<open>if (this.pc)\<close> always succeeds.
\<close>

definition dispose :: "'e engine \<Rightarrow> 'e WebRtcPeer \<Rightarrow> 'e WebRtcPeer" where
  "dispose eng s =
     (if pc_signalingState eng (pc s) = Closed then s
      else (call_close eng s)\<lparr>remoteCandidatesQueue := [], localCandidatesQueue := []\<rparr>)"

subsection \<open>createOffer (lines 166 to 250)\<close>

fun modeString :: "mode \<Rightarrow> string" where
  "modeString Sendonly = ''sendonly''"
| "modeString Recvonly = ''recvonly''"
| "modeString Sendrecv = ''sendrecv''"

fun kindString :: "mediaKind \<Rightarrow> string" where
  "kindString Audio = ''audio''"
| "kindString Video = ''video''"

text \<open>\<open>mediaConstraints[kind]\<close>.\<close>

fun constraintOf :: "mediaConstraints \<Rightarrow> mediaKind \<Rightarrow> bool" where
  "constraintOf mc Audio = audio mc"
| "constraintOf mc Video = video mc"

text \<open>\<open>new MediaStream()\<close>: a stream with no track, the \<open>n\<close>-th one built.\<close>

definition newMediaStream :: "nat \<Rightarrow> MediaStream" where
  "newMediaStream n = \<lparr>streamId = n, getTracks = []\<rparr>"


text \<open>
  The loop over the tracks of the configured stream (lines 185 to 196). It ends at the
  first \<open>addTransceiver\<close> that throws, with \<open>Some\<close> the exception; \<open>None\<close> says that it ran
  to its end.
\<close>

fun addTrackTransceivers ::
  "'e engine \<Rightarrow> MediaStream \<Rightarrow> MediaStreamTrack list \<Rightarrow> 'e WebRtcPeer
     \<Rightarrow> engine_error option \<times> 'e WebRtcPeer" where
  "addTrackTransceivers eng ms [] s = (None, s)"
| "addTrackTransceivers eng ms (track # rest) s =
     (let tcInit = \<lparr>direction = mode (configuration s), streams = [ms], sendEncodings = None\<rparr>;
          tcInit' = (if kind track = Video
                     then tcInit\<lparr>sendEncodings := Some simulcastVideoEncodings\<rparr>
                     else tcInit);
          called = call_addTransceiver eng (Inl track) tcInit' s
      in (case fst called of
            Some err \<Rightarrow> (Some err, snd called)
          | None \<Rightarrow> addTrackTransceivers eng ms rest (snd called)))"

text \<open>The loop over the two kinds of the receive-only branch (lines 199 to 210).\<close>

fun addRecvTransceivers ::
  "'e engine \<Rightarrow> mediaKind list \<Rightarrow> 'e WebRtcPeer \<Rightarrow> engine_error option \<times> 'e WebRtcPeer" where
  "addRecvTransceivers eng [] s = (None, s)"
| "addRecvTransceivers eng (k # rest) s =
     (if \<not> constraintOf (mediaConstraints (configuration s)) k then addRecvTransceivers eng rest s
      else
        (let s1 = s\<lparr>configuration :=
                      (configuration s)\<lparr>mediaStream := Some (newMediaStream (streamsCreated s))\<rparr>,
                    streamsCreated := Suc (streamsCreated s)\<rparr>;
             tcInit = \<lparr>direction = mode (configuration s1),
                       streams = [newMediaStream (streamsCreated s)],
                       sendEncodings = None\<rparr>;
             called = call_addTransceiver eng (Inr k) tcInit s1
         in (case fst called of
               Some err \<Rightarrow> (Some err, snd called)
             | None \<Rightarrow> addRecvTransceivers eng rest (snd called))))"

text \<open>The loop of the legacy branch (lines 225 to 228).\<close>

fun addTracks ::
  "'e engine \<Rightarrow> MediaStream \<Rightarrow> MediaStreamTrack list \<Rightarrow> 'e WebRtcPeer
     \<Rightarrow> engine_error option \<times> 'e WebRtcPeer" where
  "addTracks eng ms [] s = (None, s)"
| "addTracks eng ms (track # rest) s =
     (let called = call_addTrack eng track ms s
      in (case fst called of
            Some err \<Rightarrow> (Some err, snd called)
          | None \<Rightarrow> addTracks eng ms rest (snd called)))"

text \<open>\<open>this.pc.createOffer(options).then(resolve).catch(reject)\<close>.\<close>

definition requestOffer ::
  "'e engine \<Rightarrow> RTCOfferOptions option \<Rightarrow> 'e WebRtcPeer
     \<Rightarrow> RTCSessionDescriptionInit settle list \<times> 'e WebRtcPeer" where
  "requestOffer eng opts s =
     ([forward (fst (call_createOffer eng opts s))], snd (call_createOffer eng opts s))"

text \<open>What follows a loop: the offer is requested unless the loop has thrown.\<close>

definition offerAfter ::
  "'e engine \<Rightarrow> RTCOfferOptions option \<Rightarrow> engine_error option \<times> 'e WebRtcPeer
     \<Rightarrow> RTCSessionDescriptionInit settle list \<times> 'e WebRtcPeer" where
  "offerAfter eng opts looped =
     (case fst looped of
        Some err \<Rightarrow> ([thrown err], snd looped)
      | None \<Rightarrow> requestOffer eng opts (snd looped))"

definition createOffer ::
  "'e engine \<Rightarrow> 'e WebRtcPeer \<Rightarrow> RTCSessionDescriptionInit settle list \<times> 'e WebRtcPeer" where
  "createOffer eng s =
     (if has_addTransceiver eng then
        (if mode (configuration s) \<noteq> Recvonly then
           (case mediaStream (configuration s) of
              None \<Rightarrow>
                ([Reject (ErrorObject (modeString (mode (configuration s)) @
                    '' direction requested, but no stream was configured to be sent''))], s)
            | Some ms \<Rightarrow> offerAfter eng None (addTrackTransceivers eng ms (getTracks ms) s))
         else offerAfter eng None (addRecvTransceivers eng [Audio, Video] s))
      else
        (let looped = (case mediaStream (configuration s) of
                         Some ms \<Rightarrow> addTracks eng ms (getTracks ms) s
                       | None \<Rightarrow> (None, s));
             hasAudio = audio (mediaConstraints (configuration s));
             hasVideo = video (mediaConstraints (configuration s));
             options = \<lparr>offerToReceiveAudio = (mode (configuration s) \<noteq> Sendonly \<and> hasAudio),
                        offerToReceiveVideo = (mode (configuration s) \<noteq> Sendonly \<and> hasVideo)\<rparr>
         in offerAfter eng (Some options) looped))"

subsection \<open>createAnswer (lines 256 to 295)\<close>

text \<open>\<open>getTransceivers().find(tc => tc.receiver.track.kind === kind)\<close>: the first match.\<close>

fun findTransceiver :: "mediaKind \<Rightarrow> mediaKind list \<Rightarrow> nat option" where
  "findTransceiver k [] = None"
| "findTransceiver k (x # xs) =
     (if x = k then Some 0 else map_option Suc (findTransceiver k xs))"

text \<open>
  The loop over the two kinds (lines 268 to 284). A kind with no transceiver calls
  \<open>reject\<close>, and the loop goes on. The result is the calls of \<open>reject\<close>, then the
  exception of the assignment to \<open>direction\<close> that ended the loop, if one did, and the
  state.
\<close>

fun enforceDirections ::
  "'e engine \<Rightarrow> mediaKind list \<Rightarrow> 'e WebRtcPeer
     \<Rightarrow> RTCSessionDescriptionInit settle list \<times> engine_error option \<times> 'e WebRtcPeer" where
  "enforceDirections eng [] s = ([], None, s)"
| "enforceDirections eng (k # rest) s =
     (if \<not> constraintOf (mediaConstraints (configuration s)) k then enforceDirections eng rest s
      else
        (case findTransceiver k (pc_getTransceivers eng (pc s)) of
           Some i \<Rightarrow>
             (let called = call_setDirection eng i (mode (configuration s)) s
              in (case fst called of
                    Some err \<Rightarrow> ([], Some err, snd called)
                  | None \<Rightarrow> enforceDirections eng rest (snd called)))
         | None \<Rightarrow>
             (Reject (ErrorObject (kindString k @
                 '' requested, but no transceiver was created from remote description''))
                # fst (enforceDirections eng rest s),
              snd (enforceDirections eng rest s))))"

definition createAnswer ::
  "'e engine \<Rightarrow> 'e WebRtcPeer \<Rightarrow> RTCSessionDescriptionInit settle list \<times> 'e WebRtcPeer" where
  "createAnswer eng s =
     (if has_getTransceivers eng then
        (let looped = enforceDirections eng [Audio, Video] s
         in (case fst (snd looped) of
               Some err \<Rightarrow> (fst looped @ [thrown err], snd (snd looped))
             | None \<Rightarrow>
                 (let answered = call_createAnswer eng (snd (snd looped))
                  in (fst looped @ [forward (fst answered)], snd answered))))
      else ([], s))"

subsection \<open>The four steps of the offer-answer protocol (lines 300 to 375)\<close>

definition processLocalOffer ::
  "'e engine \<Rightarrow> RTCSessionDescriptionInit \<Rightarrow> 'e WebRtcPeer \<Rightarrow> unit settle list \<times> 'e WebRtcPeer" where
  "processLocalOffer eng offer s =
     (let applied = call_setLocalDescription eng offer s
      in (case fst applied of
            Inr _ \<Rightarrow>
              (case pc_localDescription eng (pc (snd applied)) of
                 Some localDescription \<Rightarrow> ([Resolve ()], snd applied)
               | None \<Rightarrow> ([Reject (Message ''Local description is not defined'')], snd applied))
          | Inl error \<Rightarrow> ([Reject (EngineFailure error)], snd applied)))"

definition processRemoteOffer ::
  "'e engine \<Rightarrow> string \<Rightarrow> 'e WebRtcPeer \<Rightarrow> unit settle list \<times> 'e WebRtcPeer" where
  "processRemoteOffer eng sdpOffer s =
     (let offer = \<lparr>sdp_type = Offer, sdp = sdpOffer\<rparr>;
          early = (if pc_signalingState eng (pc s) = Closed
                   then [Reject (Message
                     ''RTCPeerConnection is closed when trying to set remote description'')]
                   else []);
          applied = setRemoteDescription eng offer s
      in (early @ [forward (fst applied)], snd applied))"

definition processLocalAnswer ::
  "'e engine \<Rightarrow> RTCSessionDescriptionInit \<Rightarrow> 'e WebRtcPeer \<Rightarrow> unit settle list \<times> 'e WebRtcPeer" where
  "processLocalAnswer eng answer s =
     (let early = (if pc_signalingState eng (pc s) = Closed
                   then [Reject (Message
                     ''RTCPeerConnection is closed when trying to set local description'')]
                   else []);
          applied = call_setLocalDescription eng answer s
      in (early @ [forward (fst applied)], snd applied))"

definition processRemoteAnswer ::
  "'e engine \<Rightarrow> string \<Rightarrow> 'e WebRtcPeer \<Rightarrow> unit settle list \<times> 'e WebRtcPeer" where
  "processRemoteAnswer eng sdpAnswer s =
     (let answer = \<lparr>sdp_type = Answer, sdp = sdpAnswer\<rparr>;
          early = (if pc_signalingState eng (pc s) = Closed
                   then [Reject (Message
                     ''RTCPeerConnection is closed when trying to set remote description'')]
                   else []);
          applied = setRemoteDescription eng answer s
      in (early @ [forward (fst applied)], snd applied))"

subsection \<open>addIceCandidate (lines 387 to 408)\<close>

definition addIceCandidate ::
  "'e engine \<Rightarrow> RTCIceCandidate \<Rightarrow> 'e WebRtcPeer \<Rightarrow> unit settle list \<times> 'e WebRtcPeer" where
  "addIceCandidate eng iceCandidate s =
     (let s1 = s\<lparr>remoteCandidatesQueue := remoteCandidatesQueue s @ [iceCandidate]\<rparr>
      in (case pc_signalingState eng (pc s1) of
            Closed \<Rightarrow> ([Reject (ErrorObject ''PeerConnection object is closed'')], s1)
          | Stable \<Rightarrow>
              (case pc_remoteDescription eng (pc s1) of
                 Some _ \<Rightarrow>
                   ([forward (fst (call_addIceCandidate eng iceCandidate s1))],
                    snd (call_addIceCandidate eng iceCandidate s1))
               | None \<Rightarrow>
                   ([Resolve ()], s1\<lparr>iceCandidateList := iceCandidateList s1 @ [iceCandidate]\<rparr>))
          | _ \<Rightarrow> ([Resolve ()], s1\<lparr>iceCandidateList := iceCandidateList s1 @ [iceCandidate]\<rparr>)))"


section \<open>A connection to run the operations on\<close>

text \<open>
  A small stand-in for the browser's connection, used to run the operations on concrete
  inputs. It is closed by \<open>close\<close>; once closed it refuses every asynchronous call, and
  \<open>addTransceiver\<close>, \<open>addTrack\<close> and the assignment to \<open>direction\<close> throw. It moves between the signaling states as descriptions are applied, and refuses the ICE
  candidates listed in \<open>t_refused\<close>. The flag of \<open>testEngine\<close> says whether the
  transceiver methods exist; \<open>t_keepsLocal\<close> says whether the connection reports the
  local description it was given.
\<close>

record testPc =
  t_state :: RTCSignalingState
  t_local :: "RTCSessionDescriptionInit option"
  t_remote :: "RTCSessionDescriptionInit option"
  t_transceivers :: "mediaKind list"
  t_refused :: "RTCIceCandidate list"
  t_keepsLocal :: bool

fun afterLocal :: "RTCSdpType \<Rightarrow> RTCSignalingState" where
  "afterLocal Offer = HaveLocalOffer"
| "afterLocal Answer = Stable"

fun afterRemote :: "RTCSdpType \<Rightarrow> RTCSignalingState" where
  "afterRemote Offer = HaveRemoteOffer"
| "afterRemote Answer = Stable"

fun targetKind :: "MediaStreamTrack + mediaKind \<Rightarrow> mediaKind" where
  "targetKind (Inl t) = kind t"
| "targetKind (Inr k) = k"

definition testEngine :: "bool \<Rightarrow> testPc engine" where
  "testEngine transceivers =
     \<lparr>has_addTransceiver = transceivers,
      has_getTransceivers = transceivers,
      pc_signalingState = t_state,
      pc_localDescription = t_local,
      pc_remoteDescription = t_remote,
      pc_getTransceivers = t_transceivers,
      pc_close = (\<lambda>e. e\<lparr>t_state := Closed\<rparr>),
      pc_addTransceiver = (\<lambda>e t tcInit.
         if t_state e = Closed then Inl ''InvalidStateError''
         else Inr (e\<lparr>t_transceivers := t_transceivers e @ [targetKind t]\<rparr>)),
      pc_addTrack = (\<lambda>e t ms. if t_state e = Closed then Inl ''InvalidStateError'' else Inr e),
      pc_setDirection = (\<lambda>e i m. if t_state e = Closed then Inl ''InvalidStateError'' else Inr e),
      pc_createOffer = (\<lambda>e opts.
         if t_state e = Closed then (Inl ''InvalidStateError'', e)
         else (Inr \<lparr>sdp_type = Offer, sdp = ''v=0''\<rparr>, e)),
      pc_createAnswer = (\<lambda>e.
         if t_state e = Closed then (Inl ''InvalidStateError'', e)
         else (Inr \<lparr>sdp_type = Answer, sdp = ''v=0''\<rparr>, e)),
      pc_setLocalDescription = (\<lambda>e d.
         if t_state e = Closed then (Inl ''InvalidStateError'', e)
         else (Inr (), e\<lparr>t_local := (if t_keepsLocal e then Some d else None),
                         t_state := afterLocal (sdp_type d)\<rparr>)),
      pc_setRemoteDescription = (\<lambda>e d.
         if t_state e = Closed then (Inl ''InvalidStateError'', e)
         else (Inr (), e\<lparr>t_remote := Some d, t_state := afterRemote (sdp_type d)\<rparr>)),
      pc_addIceCandidate = (\<lambda>e c.
         if c \<in> set (t_refused e) then (Inl ''OperationError'', e) else (Inr (), e))\<rparr>"

definition testPc0 :: "RTCSignalingState \<Rightarrow> testPc" where
  "testPc0 st = \<lparr>t_state = st, t_local = None, t_remote = None, t_transceivers = [],
                  t_refused = [''bad''], t_keepsLocal = True\<rparr>"

definition testPeer ::
  "mode \<Rightarrow> bool \<Rightarrow> bool \<Rightarrow> MediaStream option \<Rightarrow> testPc \<Rightarrow> testPc WebRtcPeer" where
  "testPeer m a v ms e =
     \<lparr>pc = e, remoteCandidatesQueue = [], localCandidatesQueue = [],
      configuration = \<lparr>mediaConstraints = \<lparr>audio = a, video = v\<rparr>, simulcast = True,
                        mediaStream = ms, mode = m, id_cfg = ''peer''\<rparr>,
      iceCandidateList = [], candidategatheringdone = False, engineCalls = [],
      streamsCreated = 0\<rparr>"


section \<open>Basic facts\<close>

lemmas call_defs = invoke_def call_close_def call_sync_def call_addTransceiver_def call_addTrack_def
  call_setDirection_def call_createOffer_def call_createAnswer_def
  call_setLocalDescription_def call_addIceCandidate_def setRemoteDescription_def

lemma testEngine_sel [simp]:
  "has_addTransceiver (testEngine b) = b"
  "has_getTransceivers (testEngine b) = b"
  "pc_signalingState (testEngine b) e = t_state e"
  "pc_localDescription (testEngine b) e = t_local e"
  "pc_remoteDescription (testEngine b) e = t_remote e"
  "pc_getTransceivers (testEngine b) e = t_transceivers e"
  "pc_close (testEngine b) e = e\<lparr>t_state := Closed\<rparr>"
  "pc_addTransceiver (testEngine b) e t tcInit =
     (if t_state e = Closed then Inl ''InvalidStateError''
      else Inr (e\<lparr>t_transceivers := t_transceivers e @ [targetKind t]\<rparr>))"
  "pc_addTrack (testEngine b) e tr ms =
     (if t_state e = Closed then Inl ''InvalidStateError'' else Inr e)"
  "pc_setDirection (testEngine b) e i m =
     (if t_state e = Closed then Inl ''InvalidStateError'' else Inr e)"
  "pc_createOffer (testEngine b) e opts =
     (if t_state e = Closed then (Inl ''InvalidStateError'', e)
      else (Inr \<lparr>sdp_type = Offer, sdp = ''v=0''\<rparr>, e))"
  "pc_createAnswer (testEngine b) e =
     (if t_state e = Closed then (Inl ''InvalidStateError'', e)
      else (Inr \<lparr>sdp_type = Answer, sdp = ''v=0''\<rparr>, e))"
  "pc_setLocalDescription (testEngine b) e d =
     (if t_state e = Closed then (Inl ''InvalidStateError'', e)
      else (Inr (), e\<lparr>t_local := (if t_keepsLocal e then Some d else None),
                      t_state := afterLocal (sdp_type d)\<rparr>))"
  "pc_setRemoteDescription (testEngine b) e d =
     (if t_state e = Closed then (Inl ''InvalidStateError'', e)
      else (Inr (), e\<lparr>t_remote := Some d, t_state := afterRemote (sdp_type d)\<rparr>))"
  "pc_addIceCandidate (testEngine b) e c =
     (if c \<in> set (t_refused e) then (Inl ''OperationError'', e) else (Inr (), e))"
  by (simp_all add: testEngine_def)

lemma promiseState_append: "promiseState (xs @ [y]) = Some (case xs of [] \<Rightarrow> y | x # _ \<Rightarrow> x)"
  by (cases xs) simp_all

subsection \<open>The loop of the listener\<close>





subsection \<open>Calls of addIceCandidate outside the stable state\<close>



subsection \<open>The loops of createOffer\<close>

lemma call_sync_effect:
  "engineCalls (snd (call_sync c r s)) = engineCalls s @ [c]"
  "configuration (snd (call_sync c r s)) = configuration s"
  "streamsCreated (snd (call_sync c r s)) = streamsCreated s"
  by (simp_all add: call_sync_def invoke_def split: sum.splits)

lemma addTrackTransceivers_configuration:
  "configuration (snd (addTrackTransceivers eng ms ts s)) = configuration s"
  by (induction ts arbitrary: s)
     (simp_all add: call_addTransceiver_def call_sync_effect Let_def split: option.splits)





section \<open>Remote descriptions on a closed connection\<close>

text \<open>
  Claim C1. \<open>processRemoteOffer\<close> and \<open>processRemoteAnswer\<close>, called while the signaling
  state is \<open>closed\<close>, should fail and never call \<open>setRemoteDescription\<close> of the
  connection. The code calls \<open>reject\<close> and goes on (there is no \<open>return\<close> after it): the
  promise is rejected with the message about the closed connection, and the description
  is handed to the connection all the same.
\<close>

theorem processRemote_closed_still_applies:
  assumes "pc_signalingState eng (pc s) = Closed"
  shows "promiseState (fst (processRemoteOffer eng sdpText s)) =
           Some (Reject (Message
             ''RTCPeerConnection is closed when trying to set remote description''))
       \<and> engineCalls (snd (processRemoteOffer eng sdpText s)) =
           engineCalls s @ [SetRemoteDescription \<lparr>sdp_type = Offer, sdp = sdpText\<rparr>]
       \<and> promiseState (fst (processRemoteAnswer eng sdpText s)) =
           Some (Reject (Message
             ''RTCPeerConnection is closed when trying to set remote description''))
       \<and> engineCalls (snd (processRemoteAnswer eng sdpText s)) =
           engineCalls s @ [SetRemoteDescription \<lparr>sdp_type = Answer, sdp = sdpText\<rparr>]"
  using assms
  by (simp add: processRemoteOffer_def processRemoteAnswer_def call_defs Let_def)

theorem processRemote_closed_still_applies_witness:
  "pc_signalingState (testEngine True) (pc (testPeer Sendrecv True True None (testPc0 Closed)))
     = Closed
   \<and> engineCalls (snd (processRemoteOffer (testEngine True) ''v=0''
        (testPeer Sendrecv True True None (testPc0 Closed)))) =
       [SetRemoteDescription \<lparr>sdp_type = Offer, sdp = ''v=0''\<rparr>]
   \<and> engineCalls (snd (processRemoteAnswer (testEngine True) ''v=0''
        (testPeer Sendrecv True True None (testPc0 Closed)))) =
       [SetRemoteDescription \<lparr>sdp_type = Answer, sdp = ''v=0''\<rparr>]"
proof -
  have closed: "pc_signalingState (testEngine True)
      (pc (testPeer Sendrecv True True None (testPc0 Closed))) = Closed"
    by (simp add: testPeer_def testPc0_def)
  show ?thesis
    using closed processRemote_closed_still_applies [OF closed, of "''v=0''"]
    by (simp add: testPeer_def)
qed

section \<open>Settling of createAnswer\<close>

text \<open>
  Claim C2. Every operation should settle exactly once, \<open>createAnswer\<close> also on a
  connection without transceiver support. On such a connection (the property
  \<open>getTransceivers\<close> is missing) the executor of \<open>createAnswer\<close> does nothing: neither
  \<open>resolve\<close> nor \<open>reject\<close> is called, no answer is requested, and the promise stays
  pending.
\<close>

theorem createAnswer_legacy_never_settles:
  assumes "\<not> has_getTransceivers eng"
  shows "createAnswer eng s = ([], s) \<and> promiseState (fst (createAnswer eng s)) = None"
  using assms by (simp add: createAnswer_def)

theorem createAnswer_legacy_never_settles_witness:
  "\<not> has_getTransceivers (testEngine False)
   \<and> promiseState (fst (createAnswer (testEngine False)
        (testPeer Sendrecv True True None (testPc0 HaveRemoteOffer)))) = None"
proof -
  have legacy: "\<not> has_getTransceivers (testEngine False)"
    by simp
  show ?thesis
    using legacy
      createAnswer_legacy_never_settles [OF legacy,
        of "testPeer Sendrecv True True None (testPc0 HaveRemoteOffer)"]
    by simp
qed

text \<open>
  The other operations call \<open>resolve\<close> or \<open>reject\<close> at least once, whatever the
  connection answers, and so does \<open>createAnswer\<close> where \<open>getTransceivers\<close> exists.
\<close>

lemma createAnswer_settles:
  "has_getTransceivers eng \<Longrightarrow> promiseState (fst (createAnswer eng s)) \<noteq> None"
  by (simp add: createAnswer_def Let_def promiseState_append del: enforceDirections.simps
      split: option.splits)

lemma offerAfter_settles: "promiseState (fst (offerAfter eng opts looped)) \<noteq> None"
  by (simp add: offerAfter_def requestOffer_def thrown_def split: option.splits)

lemma createOffer_settles: "promiseState (fst (createOffer eng s)) \<noteq> None"
  by (cases "mediaStream (configuration s)")
     (simp_all add: createOffer_def offerAfter_settles
        del: addRecvTransceivers.simps addTrackTransceivers.simps addTracks.simps not_None_eq)

lemma processLocalOffer_settles: "promiseState (fst (processLocalOffer eng d s)) \<noteq> None"
  by (simp add: processLocalOffer_def Let_def split: option.splits sum.splits)

lemma processLocalAnswer_settles: "promiseState (fst (processLocalAnswer eng d s)) \<noteq> None"
  by (simp add: processLocalAnswer_def Let_def promiseState_append)

lemma processRemoteOffer_settles: "promiseState (fst (processRemoteOffer eng t s)) \<noteq> None"
  by (simp add: processRemoteOffer_def Let_def promiseState_append)

lemma processRemoteAnswer_settles: "promiseState (fst (processRemoteAnswer eng t s)) \<noteq> None"
  by (simp add: processRemoteAnswer_def Let_def promiseState_append)

lemma addIceCandidate_settles: "promiseState (fst (addIceCandidate eng c s)) \<noteq> None"
  by (simp add: addIceCandidate_def Let_def split: RTCSignalingState.splits option.splits)

section \<open>The flush of the buffered candidates\<close>



section \<open>Local descriptions\<close>




section \<open>Remote candidates\<close>



section \<open>The encodings of outgoing video\<close>




section \<open>Offers on a connection with transceivers\<close>

text \<open>
  Claim C7. With \<open>addTransceiver\<close> available, a mode other than receive-only and no
  configured stream, \<open>createOffer\<close> rejects with \<open>new Error\<close> saying that no stream was
  configured to be sent, and returns at once: the state is the one before the call, so
  no transceiver was added and no offer was requested.
\<close>

theorem createOffer_without_stream:
  assumes "has_addTransceiver eng"
    and "mode (configuration s) \<noteq> Recvonly"
    and "mediaStream (configuration s) = None"
  shows "createOffer eng s =
           ([Reject (ErrorObject (modeString (mode (configuration s)) @
               '' direction requested, but no stream was configured to be sent''))], s)
       \<and> engineCalls (snd (createOffer eng s)) = engineCalls s"
  using assms by (simp add: createOffer_def)

theorem createOffer_without_stream_witness:
  "has_addTransceiver (testEngine True)
   \<and> mode (configuration (testPeer Sendrecv True True None (testPc0 Stable))) \<noteq> Recvonly
   \<and> mediaStream (configuration (testPeer Sendrecv True True None (testPc0 Stable))) = None
   \<and> createOffer (testEngine True) (testPeer Sendrecv True True None (testPc0 Stable)) =
       ([Reject (ErrorObject
           ''sendrecv direction requested, but no stream was configured to be sent'')],
        testPeer Sendrecv True True None (testPc0 Stable))"
proof -
  let ?s = "testPeer Sendrecv True True None (testPc0 Stable)"
  have capable: "has_addTransceiver (testEngine True)"
    by simp
  have sending: "mode (configuration ?s) \<noteq> Recvonly"
    by (simp add: testPeer_def)
  have source: "mediaStream (configuration ?s) = None"
    by (simp add: testPeer_def)
  have m: "mode (configuration ?s) = Sendrecv"
    by (simp add: testPeer_def)
  show ?thesis
    using capable sending source createOffer_without_stream [OF capable sending source]
    by (simp add: m)
qed




section \<open>Disposal\<close>

text \<open>
  Claim C9. On a connection that is not closed, \<open>dispose\<close> calls \<open>close\<close> once and empties
  \<open>remoteCandidatesQueue\<close> and \<open>localCandidatesQueue\<close>; on a closed connection it changes
  nothing. The connection reports \<open>closed\<close> once \<open>close\<close> has been called on it (this is
  what the browser does, and the hypothesis of the theorem), so a second \<open>dispose\<close>
  changes nothing: the two calls together make at most one call of \<open>close\<close>. \<open>dispose\<close>
  is synchronous and has no failing branch.
\<close>

theorem dispose_idempotent:
  assumes "pc_signalingState eng (pc_close eng (pc s)) = Closed"
  shows "(pc_signalingState eng (pc s) \<noteq> Closed \<longrightarrow>
            engineCalls (dispose eng s) = engineCalls s @ [Close]
            \<and> pc (dispose eng s) = pc_close eng (pc s)
            \<and> remoteCandidatesQueue (dispose eng s) = []
            \<and> localCandidatesQueue (dispose eng s) = [])
       \<and> (pc_signalingState eng (pc s) = Closed \<longrightarrow> dispose eng s = s)
       \<and> dispose eng (dispose eng s) = dispose eng s
       \<and> length (filter (\<lambda>c. c = Close) (engineCalls (dispose eng (dispose eng s))))
           \<le> Suc (length (filter (\<lambda>c. c = Close) (engineCalls s)))"
  using assms by (simp add: dispose_def call_defs)

theorem dispose_idempotent_witness:
  "pc_signalingState (testEngine True)
      (pc_close (testEngine True)
        (pc ((testPeer Sendrecv True True None (testPc0 Stable))
               \<lparr>remoteCandidatesQueue := [''a''], localCandidatesQueue := [''b'']\<rparr>))) = Closed
   \<and> pc_signalingState (testEngine True)
      (pc ((testPeer Sendrecv True True None (testPc0 Stable))
               \<lparr>remoteCandidatesQueue := [''a''], localCandidatesQueue := [''b'']\<rparr>)) \<noteq> Closed
   \<and> engineCalls (dispose (testEngine True) (dispose (testEngine True)
        ((testPeer Sendrecv True True None (testPc0 Stable))
               \<lparr>remoteCandidatesQueue := [''a''], localCandidatesQueue := [''b'']\<rparr>))) = [Close]
   \<and> remoteCandidatesQueue (dispose (testEngine True)
        ((testPeer Sendrecv True True None (testPc0 Stable))
               \<lparr>remoteCandidatesQueue := [''a''], localCandidatesQueue := [''b'']\<rparr>)) = []
   \<and> dispose (testEngine True) (testPeer Sendrecv True True None (testPc0 Closed)) =
       testPeer Sendrecv True True None (testPc0 Closed)"
proof -
  let ?s = "(testPeer Sendrecv True True None (testPc0 Stable))
               \<lparr>remoteCandidatesQueue := [''a''], localCandidatesQueue := [''b'']\<rparr>"
  let ?c = "testPeer Sendrecv True True None (testPc0 Closed)"
  have closes: "pc_signalingState (testEngine True) (pc_close (testEngine True) (pc e)) = Closed"
    for e :: "testPc WebRtcPeer"
    by simp
  have opened: "pc_signalingState (testEngine True) (pc ?s) \<noteq> Closed"
    by (simp add: testPeer_def testPc0_def)
  have shut: "pc_signalingState (testEngine True) (pc ?c) = Closed"
    by (simp add: testPeer_def testPc0_def)
  have start: "engineCalls ?s = []"
    by (simp add: testPeer_def)
  show ?thesis
    using closes [of ?s] opened shut
      dispose_idempotent [OF closes [of ?s]] dispose_idempotent [OF closes [of ?c]]
    by (simp add: start)
qed

text \<open>
  Claim C10. \<open>dispose\<close> leaves \<open>iceCandidateList\<close>, the buffer of pending remote
  candidates, as it was: whatever was buffered before the call is buffered after it.
\<close>

theorem dispose_keeps_iceCandidateList:
  "iceCandidateList (dispose eng s) = iceCandidateList s"
  by (simp add: dispose_def call_defs)

end
